theory Spec2Isabelle
  imports Complex_Main "HOL-Library.Sublist"
begin

section \<open>Python values shared by the agents\<close>

text \<open>
  The agents exchange Python dictionaries. Values that come out of \<^verbatim>\<open>json.loads\<close> are
  modelled by \<open>json\<close>; a Python \<^verbatim>\<open>dict\<close> is an association list in insertion order
  with distinct keys. Python floats are idealised as reals.
\<close>

datatype json =
    JNull
  | JBool bool
  | JNum real
  | JStr string
  | JArr "json list"
  | JObj "(string \<times> json) list"

datatype error =
    KeyError | IndexError | ValueError | TypeError | AttributeError
  | UnboundLocalError | JSONDecodeError

text \<open>Python truthiness (\<^verbatim>\<open>if x\<close>, \<^verbatim>\<open>not x\<close>) of a decoded value.\<close>

fun truthy :: "json \<Rightarrow> bool" where
  "truthy JNull = False"
| "truthy (JBool b) = b"
| "truthy (JNum r) = (r \<noteq> 0)"
| "truthy (JStr s) = (s \<noteq> [])"
| "truthy (JArr xs) = (xs \<noteq> [])"
| "truthy (JObj kvs) = (kvs \<noteq> [])"


text \<open>\<^verbatim>\<open>d.get(k, default)\<close>.\<close>

definition dict_get :: "('k \<times> 'v) list \<Rightarrow> 'k \<Rightarrow> 'v \<Rightarrow> 'v" where
  "dict_get d k dflt = (case map_of d k of None \<Rightarrow> dflt | Some v \<Rightarrow> v)"

text \<open>\<^verbatim>\<open>str(n)\<close> for an integer, used by the f-strings that build identifiers.\<close>

definition digit_char :: "nat \<Rightarrow> char" where
  "digit_char n = ''0123456789'' ! (n mod 10)"

function str_nat :: "nat \<Rightarrow> string" where
  "str_nat n = (if n < 10 then [digit_char n] else str_nat (n div 10) @ [digit_char n])"
  by pat_completeness auto
termination
  by (relation "measure id") auto

definition str_int :: "int \<Rightarrow> string" where
  "str_int i = (if i < 0 then CHR ''-'' # str_nat (nat (- i)) else str_nat (nat i))"

section \<open>Hypotheses as they travel through Ranking and Evolution\<close>

text \<open>
  One record covers the dictionaries of \<^verbatim>\<open>ranking_agent.py\<close> and
  \<^verbatim>\<open>evolution_agent.py\<close>. A key that the code reads with \<^verbatim>\<open>.get(key, default)\<close>
  is an option (or an empty association list for \<^verbatim>\<open>scores\<close>); the wall-clock fields
  \<^verbatim>\<open>created_at\<close> and \<^verbatim>\<open>evolved_at\<close> are left out.
\<close>

record hypothesis =
  hyp_id :: string
  parent_id :: "string option"
  statement :: string
  confidence :: "real option"
  sources :: "int list"
  scores :: "(string \<times> real) list"
  overall_score :: "real option"
  rank :: "nat option"
  rank_explanation :: "string option"
  evolution_cycle :: "int option"

section \<open>Evolution (\<^verbatim>\<open>evolution_agent.py\<close>)\<close>

subsection \<open>\<^verbatim>\<open>_select_hypotheses_to_evolve\<close>\<close>

text \<open>The test of line 213: good evidence, but room for improvement.\<close>

definition room_for_improvement :: "hypothesis \<Rightarrow> bool" where
  "room_for_improvement hyp =
     (let evidence_score = dict_get (scores hyp) ''evidence'' 0;
          overall = (case overall_score hyp of None \<Rightarrow> 0 | Some s \<Rightarrow> s)
      in evidence_score > 0.6 \<and> overall < 8.0)"

text \<open>
  The \<^verbatim>\<open>for hyp in ranked_hypotheses[1:]\<close> loop: append when the test holds, then
  \<^verbatim>\<open>break\<close> as soon as three identifiers are collected.
\<close>

fun select_loop :: "string list \<Rightarrow> hypothesis list \<Rightarrow> string list" where
  "select_loop to_evolve [] = to_evolve"
| "select_loop to_evolve (hyp # rest) =
     (let to_evolve' =
            (if room_for_improvement hyp then to_evolve @ [hyp_id hyp] else to_evolve)
      in if length to_evolve' \<ge> 3 then to_evolve' else select_loop to_evolve' rest)"

definition select_hypotheses_to_evolve :: "hypothesis list \<Rightarrow> string list" where
  "select_hypotheses_to_evolve ranked_hypotheses =
     (case ranked_hypotheses of
        [] \<Rightarrow> []
      | first # rest \<Rightarrow> select_loop [hyp_id first] rest)"

subsection \<open>\<^verbatim>\<open>evolve\<close>\<close>

text \<open>
  A reflection is the dictionary produced by the Reflection stage. \<^verbatim>\<open>_refine_hypothesis\<close>
  searches the web and draws random phrases; it is a parameter here, called with the
  position of the hypothesis in the list, and it may raise (\<^verbatim>\<open>reflection["is_coherent"]\<close>,
  \<^verbatim>\<open>query_terms[0]\<close>).
\<close>

type_synonym reflection = "(string \<times> json) list"

record evolution_detail =
  original_id :: string
  evolved_id :: string
  original_statement :: string
  evolved_statement :: string
  evolution_reason :: string

text \<open>\<^verbatim>\<open>reflection[key]\<close>: a missing key raises.\<close>

definition dict_item :: "('k \<times> 'v) list \<Rightarrow> 'k \<Rightarrow> error + 'v" where
  "dict_item d k = (case map_of d k of None \<Rightarrow> Inl KeyError | Some v \<Rightarrow> Inr v)"

definition join_and :: "string list \<Rightarrow> string" where
  "join_and reasons = foldr (\<lambda>r acc. if acc = [] then r else r @ '' and '' @ acc) reasons []"

definition get_evolution_reason :: "hypothesis \<Rightarrow> reflection \<Rightarrow> error + string" where
  "get_evolution_reason hypothesis reflection =
     (case dict_item reflection ''is_coherent'' of Inl e \<Rightarrow> Inl e | Inr v_coh \<Rightarrow>
      case dict_item reflection ''has_supporting_evidence'' of Inl e \<Rightarrow> Inl e | Inr v_sup \<Rightarrow>
      case dict_item reflection ''contradictions'' of Inl e \<Rightarrow> Inl e | Inr v_con \<Rightarrow>
        (let reasons =
               (if \<not> truthy v_coh then [''improved logical coherence''] else []) @
               (if \<not> truthy v_sup then [''added supporting evidence''] else []) @
               (if truthy v_con then [''addressed contradictions''] else []);
             reasons' =
               (if reasons = [] then
                  (if (case overall_score hypothesis of None \<Rightarrow> 0 | Some s \<Rightarrow> s) < 7.0
                   then [''enhanced overall quality'']
                   else [''refined with more specific details''])
                else reasons)
         in Inr (''Evolution based on '' @ join_and reasons')))"

definition evolved_confidence :: "hypothesis \<Rightarrow> real" where
  "evolved_confidence hypothesis =
     min 1.0 ((case confidence hypothesis of None \<Rightarrow> 0.5 | Some c \<Rightarrow> c) + 0.1)"

definition evolved_hypothesis :: "hypothesis \<Rightarrow> string \<Rightarrow> int \<Rightarrow> hypothesis" where
  "evolved_hypothesis hypothesis refined_statement cycle =
     \<lparr> hyp_id = hyp_id hypothesis @ ''-evolved-'' @ str_int cycle,
       parent_id = Some (hyp_id hypothesis),
       statement = refined_statement,
       confidence = Some (evolved_confidence hypothesis),
       sources = sources hypothesis,
       scores = [],
       overall_score = None,
       rank = None,
       rank_explanation = None,
       evolution_cycle = Some cycle \<rparr>"

fun evolve_loop ::
  "(nat \<Rightarrow> hypothesis \<Rightarrow> reflection \<Rightarrow> error + string) \<Rightarrow> string list \<Rightarrow>
   (string \<rightharpoonup> reflection) \<Rightarrow> int \<Rightarrow> nat \<Rightarrow> hypothesis list \<Rightarrow>
   hypothesis list \<times> evolution_detail list \<Rightarrow>
   error + (hypothesis list \<times> evolution_detail list)" where
  "evolve_loop refine to_evolve reflection_map cycle i [] acc = Inr acc"
| "evolve_loop refine to_evolve reflection_map cycle i (hypothesis # rest) (evolved, details) =
     (let hypothesis_id = hyp_id hypothesis in
      case reflection_map hypothesis_id of
        None \<Rightarrow>
          evolve_loop refine to_evolve reflection_map cycle (Suc i) rest
            (evolved @ [hypothesis], details)
      | Some reflection \<Rightarrow>
          if reflection = [] then
            evolve_loop refine to_evolve reflection_map cycle (Suc i) rest
              (evolved @ [hypothesis], details)
          else if hypothesis_id \<in> set to_evolve then
            (case refine i hypothesis reflection of
               Inl e \<Rightarrow> Inl e
             | Inr refined_statement \<Rightarrow>
                 (let ev = evolved_hypothesis hypothesis refined_statement cycle in
                  case get_evolution_reason hypothesis reflection of
                    Inl e \<Rightarrow> Inl e
                  | Inr reason \<Rightarrow>
                      evolve_loop refine to_evolve reflection_map cycle (Suc i) rest
                        (evolved @ [ev],
                         details @
                           [\<lparr> original_id = hypothesis_id,
                              evolved_id = hyp_id ev,
                              original_statement = statement hypothesis,
                              evolved_statement = refined_statement,
                              evolution_reason = reason \<rparr>])))
          else
            evolve_loop refine to_evolve reflection_map cycle (Suc i) rest
              (evolved @ [hypothesis], details))"

definition evolve ::
  "(nat \<Rightarrow> hypothesis \<Rightarrow> reflection \<Rightarrow> error + string) \<Rightarrow> hypothesis list \<Rightarrow>
   string list \<Rightarrow> (string \<rightharpoonup> reflection) \<Rightarrow> int \<Rightarrow>
   error + (hypothesis list \<times> evolution_detail list)" where
  "evolve refine ranked_hypotheses hypotheses_to_evolve reflection_map cycle =
     evolve_loop refine hypotheses_to_evolve reflection_map cycle 0 ranked_hypotheses ([], [])"

text \<open>
  The relation between an input record and the record \<^verbatim>\<open>evolve\<close> puts at the same position
  of its output: a selected hypothesis that has a non-empty reflection is replaced by its
  evolved record, every other one is passed through.
\<close>

definition evolves_to ::
  "string list \<Rightarrow> (string \<rightharpoonup> reflection) \<Rightarrow> int \<Rightarrow> hypothesis \<Rightarrow> hypothesis \<Rightarrow> bool" where
  "evolves_to to_evolve rmap cycle h e =
     (if hyp_id h \<in> set to_evolve \<and> (\<exists>r. rmap (hyp_id h) = Some r \<and> r \<noteq> [])
      then (\<exists>s. e = evolved_hypothesis h s cycle) else e = h)"

subsection \<open>Sample data\<close>

definition mk_ranked :: "string \<Rightarrow> string \<Rightarrow> real \<Rightarrow> real \<Rightarrow> real \<Rightarrow> nat \<Rightarrow> hypothesis" where
  "mk_ranked i s c ev ov rk =
     \<lparr> hyp_id = i, parent_id = None, statement = s, confidence = Some c, sources = [],
       scores = [(''evidence'', ev)], overall_score = Some ov, rank = Some rk,
       rank_explanation = None, evolution_cycle = None \<rparr>"

definition sample_ranked :: "hypothesis list" where
  "sample_ranked =
     [mk_ranked ''h1'' ''first'' 0.95 0.2 9.0 1,
      mk_ranked ''h2'' ''second'' 0.7 0.8 7.0 2,
      mk_ranked ''h3'' ''third'' 0.6 0.5 6.5 3,
      mk_ranked ''h4'' ''fourth'' 0.5 0.9 6.0 4,
      mk_ranked ''h5'' ''fifth'' 0.4 0.9 5.0 5]"

definition sample_reflection :: reflection where
  "sample_reflection =
     [(''hypothesis_id'', JStr ''h1''), (''is_coherent'', JBool True),
      (''has_supporting_evidence'', JBool False), (''contradictions'', JArr [])]"

definition sample_refine :: "nat \<Rightarrow> hypothesis \<Rightarrow> reflection \<Rightarrow> error + string" where
  "sample_refine i h r = Inr (''Evidence suggests that '' @ statement h @ ''.'')"

text \<open>
  A ranked list for the selection rule. After the rank-1 hypothesis come one with good
  evidence but an overall score of 8.5, one with an overall score of exactly 8.0, one with
  an evidence score of exactly 0.6, one that passes the test, one with weak evidence, and
  two more that pass the test.
\<close>

definition sample_selection :: "hypothesis list" where
  "sample_selection =
     [mk_ranked ''t1'' ''first'' 0.9 0.2 9.0 1,
      mk_ranked ''t2'' ''second'' 0.9 0.9 8.5 2,
      mk_ranked ''t3'' ''third'' 0.8 0.7 8.0 3,
      mk_ranked ''t4'' ''fourth'' 0.8 0.6 7.5 4,
      mk_ranked ''t5'' ''fifth'' 0.7 0.8 7.0 5,
      mk_ranked ''t6'' ''sixth'' 0.7 0.3 6.0 6,
      mk_ranked ''t7'' ''seventh'' 0.6 0.9 5.0 7,
      mk_ranked ''t8'' ''eighth'' 0.6 0.9 4.0 8]"

section \<open>Meta-Review (\<^verbatim>\<open>meta_review_agent.py\<close>)\<close>

subsection \<open>\<^verbatim>\<open>_analyze_cycle_performance\<close>\<close>










section \<open>Strings and floats of the Python runtime\<close>













section \<open>The context threaded through the stages\<close>

record web_item =
  source :: string
  title :: string
  content :: string

text \<open>The context dictionary; \<open>None\<close> is an absent key.\<close>

record cycle_context =
  session_id :: "string option"
  query :: "string option"
  hypotheses :: "hypothesis list option"
  web_data :: "web_item list option"
  reflection_results :: "reflection list option"
  ranked_hypotheses :: "hypothesis list option"
  top_hypothesis :: "hypothesis option"
  hypotheses_to_improve :: "string list option"

section \<open>Ranking (\<^verbatim>\<open>ranking_agent.py\<close>)\<close>


subsection \<open>\<^verbatim>\<open>_calculate_llm_credibility\<close>\<close>



subsection \<open>\<^verbatim>\<open>_calculate_scores\<close>\<close>






subsection \<open>\<^verbatim>\<open>_generate_explanation\<close>\<close>


subsection \<open>Scoring one hypothesis, sorting, ranking\<close>



text \<open>The sort key \<^verbatim>\<open>h["overall_score"]\<close>.\<close>

definition score_key :: "hypothesis \<Rightarrow> real" where
  "score_key h = (case overall_score h of None \<Rightarrow> 0 | Some s \<Rightarrow> s)"





subsection \<open>\<^verbatim>\<open>rank\<close>\<close>


subsection \<open>\<^verbatim>\<open>process\<close>\<close>






subsection \<open>What the ranked list has to look like\<close>


definition precedes :: "hypothesis list \<Rightarrow> nat \<Rightarrow> nat \<Rightarrow> bool" where
  "precedes scored a b =
     (score_key (scored ! a) > score_key (scored ! b) \<or>
      (score_key (scored ! a) = score_key (scored ! b) \<and> a < b))"

definition ranked_order :: "hypothesis list \<Rightarrow> hypothesis list \<Rightarrow> bool" where
  "ranked_order scored ranked =
     (\<exists>ps. distinct ps \<and> set ps = {0..<length scored} \<and> sorted_wrt (precedes scored) ps \<and>
           ranked = map (\<lambda>(i, p). (scored ! p)\<lparr> rank := Some (i + 1) \<rparr>) (enumerate 0 ps))"


subsection \<open>Sample data\<close>










subsection \<open>The fallback entry and a summary of a ranked hypothesis\<close>




section \<open>Properties of Evolution\<close>

lemma select_loop_take:
  "length acc < 3 \<Longrightarrow>
   select_loop acc hs = acc @ take (3 - length acc) (map hyp_id (filter room_for_improvement hs))"
proof (induction hs arbitrary: acc)
  case Nil
  then show ?case by simp
next
  case (Cons h hs)
  show ?case
  proof (cases "room_for_improvement h")
    case False
    with Cons show ?thesis by (simp add: Let_def)
  next
    case True
    show ?thesis
    proof (cases "length acc = 2")
      case True
      with \<open>room_for_improvement h\<close> show ?thesis by (simp add: Let_def)
    next
      case False
      with Cons.prems have l: "length (acc @ [hyp_id h]) < 3" by simp
      have "3 - length acc = Suc (3 - length (acc @ [hyp_id h]))" using l by simp
      with Cons.IH[OF l] \<open>room_for_improvement h\<close> l show ?thesis
        by (simp add: Let_def)
    qed
  qed
qed

text \<open>
  C6. For a non-empty ranked list the selection is the identifier of the rank-1 hypothesis
  followed by the identifiers of the first two of the remaining hypotheses, in rank order,
  whose \<^verbatim>\<open>evidence\<close> score (0 when absent) is greater than 0.6 and whose overall score
  (0 when absent) is less than 8.0. So it always contains the rank-1 identifier and never
  has more than three entries.
\<close>

theorem select_hypotheses_to_evolve_rule:
  "ranked \<noteq> [] \<Longrightarrow>
   select_hypotheses_to_evolve ranked =
     hyp_id (hd ranked) #
       take 2 (map hyp_id
         (filter (\<lambda>h. dict_get (scores h) ''evidence'' 0 > 0.6 \<and>
                      (case overall_score h of None \<Rightarrow> 0 | Some s \<Rightarrow> s) < 8.0)
            (tl ranked))) \<and>
   hyp_id (hd ranked) \<in> set (select_hypotheses_to_evolve ranked) \<and>
   length (select_hypotheses_to_evolve ranked) \<le> 3"
proof -
  assume "ranked \<noteq> []"
  then obtain h hs where r: "ranked = h # hs" by (cases ranked) auto
  have "room_for_improvement =
          (\<lambda>h. dict_get (scores h) ''evidence'' 0 > 0.6 \<and>
               (case overall_score h of None \<Rightarrow> 0 | Some s \<Rightarrow> s) < 8.0)"
    by (intro ext) (simp add: room_for_improvement_def Let_def)
  with r show ?thesis
    by (simp add: select_hypotheses_to_evolve_def select_loop_take)
qed

theorem select_hypotheses_to_evolve_witness:
  "sample_selection \<noteq> [] \<and>
   select_hypotheses_to_evolve sample_selection = [''t1'', ''t5'', ''t7''] \<and>
   map hyp_id
     (filter (\<lambda>h. dict_get (scores h) ''evidence'' 0 > 0.6 \<and>
                  (case overall_score h of None \<Rightarrow> 0 | Some s \<Rightarrow> s) < 8.0)
        (tl sample_selection)) = [''t5'', ''t7'', ''t8'']"
  using select_hypotheses_to_evolve_rule [of sample_selection]
  by (simp add: sample_selection_def mk_ranked_def dict_get_def)

lemma evolve_loop_step:
  assumes "evolve_loop refine to_evolve rmap cycle i (h # hs) (ev, det) = Inr res"
  shows "\<exists>e det1. evolves_to to_evolve rmap cycle h e \<and>
           evolve_loop refine to_evolve rmap cycle (Suc i) hs (ev @ [e], det1) = Inr res"
  using assms
  by (auto simp: evolves_to_def Let_def split: option.splits if_splits sum.splits)

lemma evolve_loop_shape:
  "evolve_loop refine to_evolve rmap cycle i hs (ev, det) = Inr (ev', det') \<Longrightarrow>
   \<exists>new. ev' = ev @ new \<and> list_all2 (evolves_to to_evolve rmap cycle) hs new"
proof (induction hs arbitrary: i ev det)
  case Nil
  then show ?case by simp
next
  case (Cons h hs)
  from evolve_loop_step[OF Cons.prems] obtain e det1 where
    e: "evolves_to to_evolve rmap cycle h e" and
    rest: "evolve_loop refine to_evolve rmap cycle (Suc i) hs (ev @ [e], det1) = Inr (ev', det')"
    by blast
  from Cons.IH[OF rest] obtain new where
    "ev' = (ev @ [e]) @ new" "list_all2 (evolves_to to_evolve rmap cycle) hs new" by blast
  with e show ?case by (intro exI[of _ "e # new"]) simp
qed

text \<open>
  C7. When \<^verbatim>\<open>evolve\<close> returns, its output lines up with the ranked input: at the position
  of a selected hypothesis with a reflection stands a new record whose identifier is
  \<^verbatim>\<open>{id}-evolved-{cycle}\<close>, whose \<^verbatim>\<open>parent_id\<close> is the identifier of that input hypothesis and
  whose confidence is \<^verbatim>\<open>min(1.0, confidence + 0.1)\<close> of the parent (0.5 standing in for
  a parent without confidence); every other position holds the input hypothesis itself.
\<close>

theorem evolve_records:
  assumes "evolve refine ranked to_evolve rmap cycle = Inr (evolved, details)"
  shows "list_all2 (\<lambda>h e.
           if hyp_id h \<in> set to_evolve \<and> (\<exists>r. rmap (hyp_id h) = Some r \<and> r \<noteq> [])
           then hyp_id e = hyp_id h @ ''-evolved-'' @ str_int cycle \<and>
                parent_id e = Some (hyp_id h) \<and>
                confidence e =
                  Some (min 1 ((case confidence h of None \<Rightarrow> 0.5 | Some c \<Rightarrow> c) + 0.1)) \<and>
                sources e = sources h
           else e = h) ranked evolved"
proof -
  from assms evolve_loop_shape[of refine to_evolve rmap cycle 0 ranked "[]" "[]" evolved details]
  have "list_all2 (evolves_to to_evolve rmap cycle) ranked evolved"
    by (simp add: evolve_def)
  then show ?thesis
    by (rule list_all2_mono)
       (auto simp: evolves_to_def evolved_hypothesis_def evolved_confidence_def split: if_splits)
qed

theorem evolve_records_witness:
  "evolve sample_refine (take 2 sample_ranked) [''h1''] [''h1'' \<mapsto> sample_reflection] 2 =
     Inr ([evolved_hypothesis (hd sample_ranked) ''Evidence suggests that first.'' 2,
           sample_ranked ! 1],
          [\<lparr> original_id = ''h1'', evolved_id = ''h1-evolved-2'',
             original_statement = ''first'',
             evolved_statement = ''Evidence suggests that first.'',
             evolution_reason = ''Evolution based on added supporting evidence'' \<rparr>]) \<and>
   list_all2 (\<lambda>h e.
       if hyp_id h \<in> set [''h1''] \<and>
          (\<exists>r. [''h1'' \<mapsto> sample_reflection] (hyp_id h) = Some r \<and> r \<noteq> [])
       then hyp_id e = hyp_id h @ ''-evolved-'' @ str_int 2 \<and>
            parent_id e = Some (hyp_id h) \<and>
            confidence e =
              Some (min 1 ((case confidence h of None \<Rightarrow> 0.5 | Some c \<Rightarrow> c) + 0.1)) \<and>
            sources e = sources h
       else e = h)
     (take 2 sample_ranked)
     [evolved_hypothesis (hd sample_ranked) ''Evidence suggests that first.'' 2,
      sample_ranked ! 1]"
proof -
  have run:
    "evolve sample_refine (take 2 sample_ranked) [''h1''] [''h1'' \<mapsto> sample_reflection] 2 =
       Inr ([evolved_hypothesis (hd sample_ranked) ''Evidence suggests that first.'' 2,
             sample_ranked ! 1],
            [\<lparr> original_id = ''h1'', evolved_id = ''h1-evolved-2'',
               original_statement = ''first'',
               evolved_statement = ''Evidence suggests that first.'',
               evolution_reason = ''Evolution based on added supporting evidence'' \<rparr>])"
    by (simp add: evolve_def sample_ranked_def mk_ranked_def sample_reflection_def
        sample_refine_def evolved_hypothesis_def evolved_confidence_def
        get_evolution_reason_def dict_item_def join_and_def str_int_def digit_char_def Let_def)
  from evolve_records [OF run] run show ?thesis by blast
qed

section \<open>Properties of Meta-Review\<close>








section \<open>Properties of Ranking\<close>







lemma ranked_order_length: "ranked_order scored ranked \<Longrightarrow> length ranked = length scored"
proof -
  assume "ranked_order scored ranked"
  then obtain ps where d: "distinct ps" and s: "set ps = {0..<length scored}"
    and r: "ranked = map (\<lambda>(i, p). (scored ! p)\<lparr> rank := Some (i + 1) \<rparr>) (enumerate 0 ps)"
    unfolding ranked_order_def by blast
  from d s have "length ps = length scored"
    by (metis card_atLeastLessThan diff_zero distinct_card)
  with r show ?thesis by simp
qed

























end
